theory Spec2Isabelle
  imports
    Complex_Main
    "HOL-Library.Sublist"
    "HOL-Library.Char_ord"
    "HOL-Library.List_Lexorder"
    "HOL-Library.Multiset"
    "HOL-Library.AList"
begin

section \<open>JavaScript values used by the sources\<close>

text \<open>
  Strings are byte lists. \<open>String.prototype.toLowerCase\<close> is modelled on the ASCII
  letters (all keywords the sources search for are ASCII); \<open>String.prototype.includes\<close>
  is the contiguous-substring test and is case sensitive, as in JavaScript.
\<close>

definition toLowerCase_char :: "char \<Rightarrow> char" where
  "toLowerCase_char c =
     (case map_of (zip ''ABCDEFGHIJKLMNOPQRSTUVWXYZ'' ''abcdefghijklmnopqrstuvwxyz'') c of
        Some l \<Rightarrow> l
      | None \<Rightarrow> c)"

definition toLowerCase :: "string \<Rightarrow> string" where
  "toLowerCase s = map toLowerCase_char s"

fun str_includes :: "string \<Rightarrow> string \<Rightarrow> bool" where
  "str_includes [] sub = (sub = [])"
| "str_includes (c # cs) sub = (prefix sub (c # cs) \<or> str_includes cs sub)"

text \<open>\<open>Array.prototype.join\<close>.\<close>

fun join :: "string \<Rightarrow> string list \<Rightarrow> string" where
  "join sep [] = []"
| "join sep [x] = x"
| "join sep (x # y # ys) = x @ sep @ join sep (y # ys)"

text \<open>
  \<open>a || b\<close> on a possibly undefined number: the right operand is taken when the left one
  is \<open>undefined\<close> (\<open>None\<close>) or zero.
\<close>

definition num_or :: "'a::zero option \<Rightarrow> 'a \<Rightarrow> 'a" where
  "num_or a b = (case a of None \<Rightarrow> b | Some v \<Rightarrow> if v = 0 then b else v)"

text \<open>
  The errors a promise can reject with: an error with a message (a failed remote read, a
  failed supplier), the error the key/value store throws at its entry cap, and the error
  \<open>execute\<close> wraps around whatever its \<open>try\<close> block threw.
\<close>

datatype failure = Failure string | CacheFull | AuditFailed failure

text \<open>The outcome of an awaited promise, as \<open>Promise.allSettled\<close> reports it.\<close>

datatype 'a settled = Fulfilled 'a | Rejected failure

section \<open>Rate limiter (src/utils/rate-limiter.ts)\<close>

text \<open>
  Timestamps are milliseconds (\<open>Date.now()\<close>), the configured limits are integers read
  from the environment, and \<open>count\<close> is a number of requests, hence a natural number.
  Every operation takes the value \<open>now\<close> that \<open>Date.now()\<close> returns when it runs.
\<close>

record request_record =
  timestamp :: int
  request_count :: nat

record rate_limit_config =
  requestsPerMinute :: int
  burstLimit :: int
  retryDelay :: int
  maxRetryDelay :: int

record rate_limiter =
  requests :: "request_record list"
  config :: rate_limit_config

definition new_rate_limiter :: "rate_limit_config \<Rightarrow> rate_limiter" where
  "new_rate_limiter cfg = \<lparr>requests = [], config = cfg\<rparr>"

definition purge :: "int \<Rightarrow> request_record list \<Rightarrow> request_record list" where
  "purge now reqs = (let oneMinuteAgo = now - 60000 in filter (\<lambda>req. timestamp req > oneMinuteAgo) reqs)"

definition requests_sum :: "request_record list \<Rightarrow> int" where
  "requests_sum reqs = foldl (\<lambda>sum req. sum + int (request_count req)) 0 reqs"

definition canMakeRequest :: "int \<Rightarrow> rate_limiter \<Rightarrow> bool \<times> rate_limiter" where
  "canMakeRequest now rl =
     (let rl' = rl\<lparr>requests := purge now (requests rl)\<rparr>;
          requestsInLastMinute = requests_sum (requests rl')
      in (requestsInLastMinute < requestsPerMinute (config rl'), rl'))"

definition recordRequest :: "int \<Rightarrow> nat \<Rightarrow> rate_limiter \<Rightarrow> rate_limiter" where
  "recordRequest now n rl =
     rl\<lparr>requests := requests rl @ [\<lparr>timestamp = now, request_count = n\<rparr>]\<rparr>"

text \<open>The wait computed by \<open>waitForAvailability\<close> when admission is refused.\<close>

definition waitTime :: "int \<Rightarrow> rate_limiter \<Rightarrow> int" where
  "waitTime now rl =
     (case requests rl of
        [] \<Rightarrow> 1000
      | oldestRequest # _ \<Rightarrow> 60000 - (now - timestamp oldestRequest))"

text \<open>
  \<open>waitForAvailability\<close> sleeps and retries. The list \<open>lags\<close> gives, for each sleep, how
  much later than requested the timer fires; its length bounds the number of retries,
  and \<open>None\<close> means that admission was not reached within that many sleeps. The result
  carries the time at which the request was recorded.
\<close>

fun waitForAvailability :: "nat list \<Rightarrow> int \<Rightarrow> rate_limiter \<Rightarrow> (int \<times> rate_limiter) option" where
  "waitForAvailability [] now rl =
     (case canMakeRequest now rl of
        (True, rl') \<Rightarrow> Some (now, recordRequest now 1 rl')
      | (False, rl') \<Rightarrow> None)"
| "waitForAvailability (lag # lags) now rl =
     (case canMakeRequest now rl of
        (True, rl') \<Rightarrow> Some (now, recordRequest now 1 rl')
      | (False, rl') \<Rightarrow>
          (let delay = min (waitTime now rl') (maxRetryDelay (config rl'))
           in waitForAvailability lags (now + max 0 delay + int lag) rl'))"

record rate_limit_status =
  requestsInLastMinute :: int
  remainingRequests :: int
  resetTime :: int

definition getStatus :: "int \<Rightarrow> rate_limiter \<Rightarrow> rate_limit_status \<times> rate_limiter" where
  "getStatus now rl =
     (let rl' = rl\<lparr>requests := purge now (requests rl)\<rparr>;
          inLastMinute = requests_sum (requests rl');
          remaining = max 0 (requestsPerMinute (config rl') - inLastMinute);
          reset = (case requests rl' of
                     [] \<Rightarrow> now
                   | oldestRequest # _ \<Rightarrow> timestamp oldestRequest + 60000)
      in (\<lparr>requestsInLastMinute = inLastMinute, remainingRequests = remaining,
           resetTime = reset\<rparr>, rl'))"

text \<open>
  The window invariant: timestamps never decrease along the window, and none lies in
  the future of the clock value \<open>now\<close>.
\<close>

definition window_ordered :: "rate_limiter \<Rightarrow> bool" where
  "window_ordered rl = sorted (map timestamp (requests rl))"

definition window_before :: "int \<Rightarrow> rate_limiter \<Rightarrow> bool" where
  "window_before now rl = list_all (\<lambda>req. timestamp req \<le> now) (requests rl)"

definition window_invariant :: "int \<Rightarrow> rate_limiter \<Rightarrow> bool" where
  "window_invariant now rl \<longleftrightarrow> window_ordered rl \<and> window_before now rl"

text \<open>A history of \<open>recordRequest\<close> calls, each with the clock value at the call.\<close>

definition as_record :: "int \<times> nat \<Rightarrow> request_record" where
  "as_record p = \<lparr>timestamp = fst p, request_count = snd p\<rparr>"


fun record_all :: "(int \<times> nat) list \<Rightarrow> rate_limiter \<Rightarrow> rate_limiter" where
  "record_all [] rl = rl"
| "record_all ((t, n) # h) rl = record_all h (recordRequest t n rl)"

text \<open>The total count of the calls of a history made after \<open>now - 60000\<close>.\<close>

definition recent_total :: "int \<Rightarrow> (int \<times> nat) list \<Rightarrow> int" where
  "recent_total now h = (\<Sum>(t, n) \<leftarrow> h. if now - 60000 < t then int n else 0)"

section \<open>Response cache (src/utils/cache.ts)\<close>

subsection \<open>Cache keys\<close>

text \<open>
  A parameter object is the list of its entries in the order \<open>Object.keys\<close> enumerates
  them; a well-formed object has no key twice. Parameter values are booleans, numbers,
  strings and nested objects.
\<close>

datatype pval = PBool bool | PNum int | PStr string | PObj "(string \<times> pval) list"


definition well_formed :: "(string \<times> 'v) list \<Rightarrow> bool" where
  "well_formed ps = distinct (map fst ps)"


text \<open>
  The template literal \<open>`${key}:${JSON.stringify(params[key])}`\<close>. The built-in
  \<open>JSON.stringify\<close> is the parameter \<open>stringify\<close>; a property that is absent
  prints as \<open>undefined\<close>.
\<close>

definition render_entry :: "('v \<Rightarrow> string) \<Rightarrow> (string \<times> 'v) list \<Rightarrow> string \<Rightarrow> string" where
  "render_entry stringify ps key =
     key @ '':'' @ (case map_of ps key of None \<Rightarrow> ''undefined'' | Some v \<Rightarrow> stringify v)"

definition generateKey :: "('v \<Rightarrow> string) \<Rightarrow> string \<Rightarrow> (string \<times> 'v) list \<Rightarrow> string" where
  "generateKey stringify pfx ps =
     (let sortedParams = join ''|'' (map (render_entry stringify ps) (sort (map fst ps)))
      in if sortedParams \<noteq> [] then pfx @ '':'' @ sortedParams else pfx)"

text \<open>
  \<open>JSON.stringify\<close> on booleans and on integers; strings and objects are printed
  without escaping, which agrees with JavaScript on the examples below.
\<close>

fun digits :: "nat \<Rightarrow> string" where
  "digits n = (if n < 10 then [''0123456789'' ! n] else digits (n div 10) @ [''0123456789'' ! (n mod 10)])"

fun json_text :: "pval \<Rightarrow> string" where
  "json_text (PBool b) = (if b then ''true'' else ''false'')"
| "json_text (PNum n) = (if n < 0 then ''-'' @ digits (nat (- n)) else digits (nat n))"
| "json_text (PStr s) = ''\"'' @ s @ ''\"''"
| "json_text (PObj fs) =
     ''{'' @ join '','' (map (\<lambda>(k, v). ''\"'' @ k @ ''\":'' @ json_text v) fs) @ ''}''"

subsection \<open>The store\<close>






subsection \<open>ApiCache\<close>







datatype strategy = Short | Medium | Long | Static





section \<open>Account audit (src/functions/account-audit.ts)\<close>

subsection \<open>Remote entities and responses\<close>

text \<open>
  The audit reads the responses through \<open>any\<close>; a property that the code guards with
  \<open>?.\<close> or \<open>||\<close> is optional here, and only the properties the audit reads are kept.
\<close>

record kit_pagination =
  total_count :: "int option"

record subscriber =
  subscriber_id :: int
  email_address :: string

record subscribers_response =
  subscribers :: "subscriber list option"
  pagination :: "kit_pagination option"

record tag =
  tag_id :: int
  tag_name :: string
  tag_created_at :: string

record tags_response =
  tags :: "tag list option"

record sequence =
  sequence_id :: int
  sequence_name :: string
  hold :: bool
  repeat :: bool

record sequences_response =
  sequences :: "sequence list option"

record form =
  form_id :: int
  form_conversion_rate :: "rat option"

record forms_response =
  forms :: "form list option"

record custom_field =
  field_id :: int
  field_name :: string
  field_key :: "string option"
  field_type :: "string option"
  field_created_at :: string

record custom_fields_response =
  custom_fields :: "custom_field list option"

record growth_stats =
  growth_rate :: "rat option"

record email_stats =
  total_sent :: int
  total_opened :: int
  total_clicked :: int

record account_response =
  account_id :: int
  account_name :: string

text \<open>
  The object that \<open>buildAccountSummary\<close>, \<open>generateRecommendations\<close> and
  \<open>calculateListHealthScore\<close> receive as \<open>stats: any\<close>. A property the object literal
  does not have reads as \<open>undefined\<close>, that is \<open>None\<close>.
\<close>

record stats =
  emailStats :: "email_stats option"
  growthStats :: "growth_stats option"
  total_subscribers :: "int option"
  active_subscribers :: "int option"
  bounced_subscribers :: "int option"
  complained_subscribers :: "int option"

subsection \<open>The report\<close>

record account_summary =
  summary_total_subscribers :: int
  summary_active_subscribers :: int
  unsubscribed_count :: int
  growth_rate_30d :: rat
  list_health_score :: rat

record engagement_metrics =
  open_rate :: rat
  click_rate :: rat
  unsubscribe_rate :: rat
  complaint_rate :: rat
  engagement_score :: rat

record tag_usage =
  usage_tag :: tag
  subscriber_count :: int
  engagement :: engagement_metrics
  usage_frequency :: rat

record segmentation_analysis =
  total_tags :: nat
  active_segments :: "tag list"
  tag_usage_distribution :: "tag_usage list"
  behavioral_tracking_status :: string

record automation_performance =
  automation_id :: int
  triggers_fired :: int
  subscribers_entered :: int
  completion_rate :: rat
  goal_completion_rate :: rat
  avg_time_to_complete :: rat

record automation =
  automation_ident :: int
  automation_name :: string
  automation_status :: string
  trigger_type :: string
  automation_subscriber_count :: int
  automation_conversion_rate :: rat
  performance_data :: automation_performance

record automation_metrics =
  metrics_automation :: automation
  performance :: automation_performance
  optimization_score :: int

record automation_overview =
  total_sequences :: nat
  active_sequences :: "sequence list"
  total_automations :: nat
  active_automations :: "sequence list"
  automation_performance :: "automation_metrics list"

record conversion_data =
  conversion_form_id :: int
  conversion_rate :: rat
  subscriber_quality_score :: rat

record lead_capture_analysis =
  total_forms :: nat
  form_performance :: "unit list"
  conversion_rates :: "conversion_data list"

record custom_field_analysis =
  analysed_field :: custom_field
  usage_percentage :: rat
  data_quality_score :: int
  personalization_opportunity :: string

record account_audit =
  account_summary :: account_summary
  segmentation_analysis :: segmentation_analysis
  automation_overview :: automation_overview
  lead_capture_analysis :: lead_capture_analysis
  custom_fields_usage :: "custom_field_analysis list"
  strategic_recommendations :: "string list"

subsection \<open>The remote client and the clock\<close>

text \<open>
  The environment of one \<open>execute\<close> call: how each read of the remote client settles,
  and what the two date helpers \<open>getDaysSince\<close> (\<open>None\<close> is \<open>NaN\<close>, for a date that does
  not parse) and \<open>getDateDaysAgo\<close> compute from the system clock. The calls made are
  logged as a list of \<open>api_call\<close>.
\<close>

record audit_env =
  getAccount :: "account_response settled"
  getEmailStats :: "email_stats settled"
  getGrowthStats :: "growth_stats settled"
  getSubscribers :: "subscribers_response settled"
  getTags :: "tags_response settled"
  getSequences :: "sequences_response settled"
  getForms :: "forms_response settled"
  getCustomFields :: "custom_fields_response settled"
  getTagSubscribers :: "int \<Rightarrow> subscribers_response settled"
  getSequenceSubscribers :: "int \<Rightarrow> subscribers_response settled"
  getFormSubscribers :: "int \<Rightarrow> subscribers_response settled"
  getDaysSince :: "string \<Rightarrow> int option"
  getDateDaysAgo :: "nat \<Rightarrow> string"

datatype api_call =
    GetAccount | GetEmailStats | GetGrowthStats | GetSubscribers | GetTags | GetSequences
  | GetForms | GetCustomFields
  | GetTagSubscribers int | GetSequenceSubscribers int | GetFormSubscribers int

definition getResult :: "'a settled \<Rightarrow> 'a option" where
  "getResult r = (case r of Fulfilled v \<Rightarrow> Some v | Rejected err \<Rightarrow> None)"

subsection \<open>Helper methods\<close>

definition calculateListHealthScore :: "stats \<Rightarrow> rat" where
  "calculateListHealthScore st =
     (let total = num_or (total_subscribers st) 1;
          active = num_or (active_subscribers st) 0;
          bounced = num_or (bounced_subscribers st) 0;
          complained = num_or (complained_subscribers st) 0;
          healthRatio = of_int active / of_int total;
          negativeRatio = of_int (bounced + complained) / of_int total
      in max 0 (min 100 ((healthRatio * 100) - (negativeRatio * 50))))"

definition calculateTagUsageFrequency :: "audit_env \<Rightarrow> tag \<Rightarrow> rat" where
  "calculateTagUsageFrequency env tg =
     (case getDaysSince env (tag_created_at tg) of
        Some daysSinceCreation \<Rightarrow>
          if daysSinceCreation > 0 then 1 / of_int daysSinceCreation else 1
      | None \<Rightarrow> 1)"

definition behavioralKeywords :: "string list" where
  "behavioralKeywords = [''clicked'', ''opened'', ''purchased'', ''engaged'', ''visited'']"

definition assessBehavioralTracking :: "tag list \<Rightarrow> string" where
  "assessBehavioralTracking tgs =
     (let behavioralTags =
            filter (\<lambda>tg. list_ex (\<lambda>keyword. str_includes (toLowerCase (tag_name tg)) keyword)
                               behavioralKeywords) tgs
      in if length behavioralTags \<ge> 5 then ''Advanced''
         else if length behavioralTags \<ge> 2 then ''Basic''
         else ''None'')"

definition calculateOptimizationScore :: "sequence \<Rightarrow> int" where
  "calculateOptimizationScore sq =
     (let score = 50;
          score = (if str_includes (sequence_name sq) ''welcome'' then score + 10 else score);
          score = (if str_includes (sequence_name sq) ''nurture'' then score + 10 else score);
          score = (if \<not> hold sq then score + 20 else score);
          score = (if repeat sq then score + 10 else score)
      in min 100 score)"

definition calculateSubscriberQualityScore :: "form \<Rightarrow> rat" where
  "calculateSubscriberQualityScore fm =
     (case form_conversion_rate fm of
        None \<Rightarrow> 50
      | Some r \<Rightarrow> if r = 0 then 50 else min 100 (r * 10))"

definition calculateDataQualityScore :: "custom_field \<Rightarrow> int" where
  "calculateDataQualityScore fld =
     (let score = 50;
          score = (if length (field_name fld) > 3 then score + 20 else score);
          score = (case field_key fld of
                     Some k \<Rightarrow> if length k > 0 then score + 20 else score
                   | None \<Rightarrow> score);
          score = (if field_type fld = Some ''text'' then score + 10 else score)
      in min 100 score)"

definition assessPersonalizationOpportunity :: "custom_field \<Rightarrow> string" where
  "assessPersonalizationOpportunity fld =
     (let fieldName = toLowerCase (field_name fld)
      in if str_includes fieldName ''name'' then ''High - Use for email personalization''
         else if str_includes fieldName ''location'' \<or> str_includes fieldName ''state''
           then ''Medium - Geographic targeting''
         else if str_includes fieldName ''specialty'' \<or> str_includes fieldName ''industry''
           then ''High - Professional/industry segmentation''
         else ''Low - General data field'')"

subsection \<open>Report sections\<close>

definition buildAccountSummary :: "stats \<Rightarrow> int \<Rightarrow> account_summary" where
  "buildAccountSummary st totalSubscribers =
     (let growth = (case growthStats st of None \<Rightarrow> \<lparr>growth_rate = None\<rparr> | Some g \<Rightarrow> g);
          activeSubscribers = totalSubscribers;
          unsubscribedCount = 0;
          listHealthScore = calculateListHealthScore
            \<lparr>emailStats = None, growthStats = None,
             total_subscribers = Some totalSubscribers,
             active_subscribers = Some activeSubscribers,
             bounced_subscribers = Some 0,
             complained_subscribers = Some 0\<rparr>;
          growthRate30d = num_or (growth_rate growth) 0
      in \<lparr>summary_total_subscribers = totalSubscribers,
          summary_active_subscribers = activeSubscribers,
          unsubscribed_count = unsubscribedCount,
          growth_rate_30d = growthRate30d,
          list_health_score = listHealthScore\<rparr>)"

text \<open>\<open>subscribers.pagination?.total_count || 0\<close>.\<close>

definition page_total :: "subscribers_response \<Rightarrow> int" where
  "page_total r = num_or (Option.bind (pagination r) total_count) 0"

text \<open>
  The loop over the first tags: each tag is queried in turn; a rejected query is caught
  and the tag is skipped.
\<close>

fun analyze_tags :: "audit_env \<Rightarrow> tag list \<Rightarrow> tag_usage list \<times> api_call list" where
  "analyze_tags env [] = ([], [])"
| "analyze_tags env (tg # rest) =
     (let (usages, calls) = analyze_tags env rest;
          call = GetTagSubscribers (tag_id tg)
      in case getTagSubscribers env (tag_id tg) of
           Fulfilled subs \<Rightarrow>
             (\<lparr>usage_tag = tg,
               subscriber_count = page_total subs,
               engagement = \<lparr>open_rate = 0, click_rate = 0, unsubscribe_rate = 0,
                              complaint_rate = 0, engagement_score = 0\<rparr>,
               usage_frequency = calculateTagUsageFrequency env tg\<rparr> # usages, call # calls)
         | Rejected err \<Rightarrow> (usages, call # calls))"

definition buildSegmentationAnalysis ::
  "audit_env \<Rightarrow> tags_response \<Rightarrow> segmentation_analysis \<times> api_call list" where
  "buildSegmentationAnalysis env tagsResponse =
     (let tgs = (case tags tagsResponse of None \<Rightarrow> [] | Some ts \<Rightarrow> ts);
          (tagUsageDistribution, calls) = analyze_tags env (take 20 tgs)
      in (\<lparr>total_tags = length tgs,
           active_segments = filter (\<lambda>tg. tag_created_at tg > getDateDaysAgo env 90) tgs,
           tag_usage_distribution = tagUsageDistribution,
           behavioral_tracking_status = assessBehavioralTracking tgs\<rparr>, calls))"

definition sequence_performance :: "sequence \<Rightarrow> subscribers_response \<Rightarrow> automation_performance" where
  "sequence_performance sq subs =
     \<lparr>automation_id = sequence_id sq, triggers_fired = 0,
      subscribers_entered = page_total subs, completion_rate = 0,
      goal_completion_rate = 0, avg_time_to_complete = 0\<rparr>"

fun analyze_sequences :: "audit_env \<Rightarrow> sequence list \<Rightarrow> automation_metrics list \<times> api_call list" where
  "analyze_sequences env [] = ([], [])"
| "analyze_sequences env (sq # rest) =
     (let (metrics, calls) = analyze_sequences env rest;
          call = GetSequenceSubscribers (sequence_id sq)
      in case getSequenceSubscribers env (sequence_id sq) of
           Fulfilled subs \<Rightarrow>
             (\<lparr>metrics_automation =
                 \<lparr>automation_ident = sequence_id sq,
                  automation_name = sequence_name sq,
                  automation_status = (if hold sq then ''archived'' else ''active''),
                  trigger_type = ''manual'',
                  automation_subscriber_count = page_total subs,
                  automation_conversion_rate = 0,
                  performance_data = sequence_performance sq subs\<rparr>,
               performance = sequence_performance sq subs,
               optimization_score = calculateOptimizationScore sq\<rparr> # metrics, call # calls)
         | Rejected err \<Rightarrow> (metrics, call # calls))"

definition buildAutomationOverview ::
  "audit_env \<Rightarrow> sequences_response \<Rightarrow> automation_overview \<times> api_call list" where
  "buildAutomationOverview env sequencesResponse =
     (let sqs = (case sequences sequencesResponse of None \<Rightarrow> [] | Some l \<Rightarrow> l);
          activeSequences = filter (\<lambda>sq. \<not> hold sq) sqs;
          (automationPerformance, calls) = analyze_sequences env (take 10 activeSequences)
      in (\<lparr>total_sequences = length sqs,
           active_sequences = activeSequences,
           total_automations = length sqs,
           active_automations = activeSequences,
           automation_performance = automationPerformance\<rparr>, calls))"

fun analyze_forms :: "audit_env \<Rightarrow> form list \<Rightarrow> conversion_data list \<times> api_call list" where
  "analyze_forms env [] = ([], [])"
| "analyze_forms env (fm # rest) =
     (let (rates, calls) = analyze_forms env rest;
          call = GetFormSubscribers (form_id fm)
      in case getFormSubscribers env (form_id fm) of
           Fulfilled subs \<Rightarrow>
             (\<lparr>conversion_form_id = form_id fm,
               conversion_rate = num_or (form_conversion_rate fm) 0,
               subscriber_quality_score = calculateSubscriberQualityScore fm\<rparr> # rates,
              call # calls)
         | Rejected err \<Rightarrow> (rates, call # calls))"

definition buildLeadCaptureAnalysis ::
  "audit_env \<Rightarrow> forms_response \<Rightarrow> lead_capture_analysis \<times> api_call list" where
  "buildLeadCaptureAnalysis env formsResponse =
     (let fms = (case forms formsResponse of None \<Rightarrow> [] | Some l \<Rightarrow> l);
          (conversionRates, calls) = analyze_forms env (take 10 fms)
      in (\<lparr>total_forms = length fms, form_performance = [],
           conversion_rates = conversionRates\<rparr>, calls))"

definition buildCustomFieldsAnalysis :: "custom_field list \<Rightarrow> custom_field_analysis list" where
  "buildCustomFieldsAnalysis customFields =
     map (\<lambda>fld.
            \<lparr>analysed_field =
               fld\<lparr>field_type :=
                     Some (case field_type fld of
                             None \<Rightarrow> ''text''
                           | Some ty \<Rightarrow> if ty = [] then ''text'' else ty)\<rparr>,
             usage_percentage = 0,
             data_quality_score = calculateDataQualityScore fld,
             personalization_opportunity = assessPersonalizationOpportunity fld\<rparr>)
         customFields"

subsection \<open>Recommendations\<close>

definition reengagement_recommendation :: string where
  "reengagement_recommendation =
     ''List health is below optimal. Consider implementing re-engagement campaigns and improving signup quality.''"

definition segmentation_recommendation :: string where
  "segmentation_recommendation =
     ''Limited segmentation detected. Implement behavioral tags to improve targeting and personalization.''"

definition automation_recommendation :: string where
  "automation_recommendation =
     ''Expand automation strategy. Consider welcome series, nurture sequences, and re-engagement campaigns.''"

definition lead_capture_recommendation :: string where
  "lead_capture_recommendation =
     ''Diversify lead capture strategy. Test multiple form types and placements to maximize conversions.''"

definition brand_recommendation :: string where
  "brand_recommendation =
     ''Ensure all automation content maintains consistent brand positioning and messaging.''"

definition segment_tracking_recommendation :: string where
  "segment_tracking_recommendation =
     ''Implement advanced segment tracking (Customer type, engagement level, lifecycle stage) for targeted messaging.''"

text \<open>
  \<open>x?.length < n\<close>: the comparison is false when the array is absent
  (\<open>undefined < n\<close>).
\<close>

definition length_below :: "'a list option \<Rightarrow> nat \<Rightarrow> bool" where
  "length_below xs n = (case xs of None \<Rightarrow> False | Some l \<Rightarrow> length l < n)"

definition generateRecommendations ::
  "stats \<Rightarrow> tags_response \<Rightarrow> sequences_response \<Rightarrow> forms_response \<Rightarrow> string list" where
  "generateRecommendations st tgs sqs fms =
     (let listHealthScore = calculateListHealthScore st;
          r1 = (if listHealthScore < 70 then [reengagement_recommendation] else []);
          r2 = (if length_below (tags tgs) 5 then [segmentation_recommendation] else []);
          activeSequences = (case sequences sqs of
                               None \<Rightarrow> []
                             | Some l \<Rightarrow> filter (\<lambda>sq. \<not> hold sq) l);
          r3 = (if length activeSequences < 3 then [automation_recommendation] else []);
          r4 = (if length_below (forms fms) 2 then [lead_capture_recommendation] else [])
      in r1 @ r2 @ r3 @ r4 @ [brand_recommendation, segment_tracking_recommendation])"

subsection \<open>execute\<close>

text \<open>
  \<open>subscribersData?.pagination?.total_count || subscribersData?.subscribers?.length || 0\<close>.
\<close>

definition subscriber_total :: "subscribers_response option \<Rightarrow> int" where
  "subscriber_total subscribersData =
     num_or (Option.bind (Option.bind subscribersData pagination) total_count)
       (num_or (map_option (\<lambda>l. int (length l)) (Option.bind subscribersData subscribers)) 0)"

definition primary_calls :: "api_call list" where
  "primary_calls =
     [GetAccount, GetEmailStats, GetGrowthStats, GetSubscribers, GetTags, GetSequences,
      GetForms, GetCustomFields]"

text \<open>
  The body of the \<open>try\<close> block up to the finished \<open>audit\<close> object: the eight reads are
  started together and all of them settle (\<open>Promise.allSettled\<close>); \<open>getResult\<close> turns a
  rejected read into \<open>null\<close>. The result is the report and the log of remote calls.
\<close>

definition build_audit :: "audit_env \<Rightarrow> account_audit \<times> api_call list" where
  "build_audit env =
     (let accountData = getResult (getAccount env);
          emailStatsData = getResult (getEmailStats env);
          growthStatsData = getResult (getGrowthStats env);
          subscribersData = getResult (getSubscribers env);
          tagsData = getResult (getTags env);
          sequencesData = getResult (getSequences env);
          formsData = getResult (getForms env);
          customFieldsData = getResult (getCustomFields env);
          statsArg = \<lparr>emailStats = emailStatsData, growthStats = growthStatsData,
                      total_subscribers = None, active_subscribers = None,
                      bounced_subscribers = None, complained_subscribers = None\<rparr>;
          tagsArg = (case tagsData of None \<Rightarrow> \<lparr>tags = Some []\<rparr> | Some r \<Rightarrow> r);
          sequencesArg = (case sequencesData of None \<Rightarrow> \<lparr>sequences = Some []\<rparr> | Some r \<Rightarrow> r);
          formsArg = (case formsData of None \<Rightarrow> \<lparr>forms = Some []\<rparr> | Some r \<Rightarrow> r);
          customFieldsArg = (case Option.bind customFieldsData custom_fields of
                               None \<Rightarrow> []
                             | Some l \<Rightarrow> l);
          summary = buildAccountSummary statsArg (subscriber_total subscribersData);
          (segmentation, tagCalls) = buildSegmentationAnalysis env tagsArg;
          (automationOverview, sequenceCalls) = buildAutomationOverview env sequencesArg;
          (leadCapture, formCalls) = buildLeadCaptureAnalysis env formsArg;
          customFieldsUsage = buildCustomFieldsAnalysis customFieldsArg;
          recommendations = generateRecommendations statsArg tagsArg sequencesArg formsArg
      in (\<lparr>account_summary = summary,
           segmentation_analysis = segmentation,
           automation_overview = automationOverview,
           lead_capture_analysis = leadCapture,
           custom_fields_usage = customFieldsUsage,
           strategic_recommendations = recommendations\<rparr>,
          primary_calls @ tagCalls @ sequenceCalls @ formCalls))"




subsection \<open>The health score as the specification words it\<close>

definition clamp :: "rat \<Rightarrow> rat \<Rightarrow> rat \<Rightarrow> rat" where
  "clamp lo hi x = max lo (min hi x)"

definition health_score_spec :: "int \<Rightarrow> int \<Rightarrow> int \<Rightarrow> int \<Rightarrow> rat" where
  "health_score_spec n_total n_active n_bounced n_complained =
     (let floored = max 1 n_total;
          activeRatio = of_int n_active / of_int floored;
          negativeRatio = (of_int n_bounced + of_int n_complained) / of_int floored
      in clamp 0 100 (100 * activeRatio - 50 * negativeRatio))"

section \<open>Example inputs\<close>

text \<open>The responses that the unit tests of the audit mock (tests/functions/account-audit.test.ts).\<close>

definition test_env :: audit_env where
  "test_env =
     \<lparr>getAccount = Fulfilled \<lparr>account_id = 12345, account_name = ''Test Account''\<rparr>,
      getEmailStats = Fulfilled \<lparr>total_sent = 1000, total_opened = 800, total_clicked = 200\<rparr>,
      getGrowthStats = Fulfilled \<lparr>growth_rate = Some (26 / 5)\<rparr>,
      getSubscribers = Fulfilled
        \<lparr>subscribers = Some [\<lparr>subscriber_id = 1, email_address = ''user1@example.com''\<rparr>,
                             \<lparr>subscriber_id = 2, email_address = ''user2@example.com''\<rparr>],
         pagination = Some \<lparr>total_count = Some 250\<rparr>\<rparr>,
      getTags = Fulfilled
        \<lparr>tags = Some [\<lparr>tag_id = 1, tag_name = ''VIP'', tag_created_at = ''2024-01-01T00:00:00Z''\<rparr>,
                      \<lparr>tag_id = 2, tag_name = ''Newsletter'', tag_created_at = ''2024-01-02T00:00:00Z''\<rparr>]\<rparr>,
      getSequences = Fulfilled
        \<lparr>sequences = Some [\<lparr>sequence_id = 1, sequence_name = ''Welcome Series'', hold = False, repeat = False\<rparr>,
                           \<lparr>sequence_id = 2, sequence_name = ''Nurture Campaign'', hold = False, repeat = True\<rparr>]\<rparr>,
      getForms = Fulfilled
        \<lparr>forms = Some [\<lparr>form_id = 1, form_conversion_rate = Some (3 / 20)\<rparr>,
                       \<lparr>form_id = 2, form_conversion_rate = Some (2 / 25)\<rparr>]\<rparr>,
      getCustomFields = Fulfilled
        \<lparr>custom_fields = Some
           [\<lparr>field_id = 1, field_name = ''First Name'', field_key = Some ''first_name'',
             field_type = Some ''text'', field_created_at = ''2024-01-01T00:00:00Z''\<rparr>,
            \<lparr>field_id = 2, field_name = ''Company'', field_key = Some ''company'',
             field_type = Some ''text'', field_created_at = ''2024-01-01T00:00:00Z''\<rparr>]\<rparr>,
      getTagSubscribers =
        (\<lambda>i. Fulfilled \<lparr>subscribers = Some [], pagination = Some \<lparr>total_count = Some 50\<rparr>\<rparr>),
      getSequenceSubscribers =
        (\<lambda>i. Fulfilled \<lparr>subscribers = Some [], pagination = Some \<lparr>total_count = Some 75\<rparr>\<rparr>),
      getFormSubscribers =
        (\<lambda>i. Fulfilled \<lparr>subscribers = Some [], pagination = Some \<lparr>total_count = Some 100\<rparr>\<rparr>),
      getDaysSince = (\<lambda>d. Some 300),
      getDateDaysAgo = (\<lambda>n. ''2024-08-01T00:00:00.000Z'')\<rparr>"




definition named_field :: "string \<Rightarrow> custom_field" where
  "named_field n =
     \<lparr>field_id = 1, field_name = n, field_key = None, field_type = None,
      field_created_at = ''2024-01-01T00:00:00Z''\<rparr>"

text \<open>The object literal that \<open>buildAccountSummary\<close> hands to \<open>calculateListHealthScore\<close>.\<close>

definition count_stats :: "int \<Rightarrow> int \<Rightarrow> int \<Rightarrow> int \<Rightarrow> stats" where
  "count_stats n_total n_active n_bounced n_complained =
     \<lparr>emailStats = None, growthStats = None,
      total_subscribers = Some n_total, active_subscribers = Some n_active,
      bounced_subscribers = Some n_bounced, complained_subscribers = Some n_complained\<rparr>"

text \<open>Rate limiters: two requests per minute, none at all, and two recorded requests.\<close>

definition two_per_minute :: rate_limit_config where
  "two_per_minute =
     \<lparr>requestsPerMinute = 2, burstLimit = 10, retryDelay = 1000, maxRetryDelay = 10000\<rparr>"

definition never_admit :: rate_limit_config where
  "never_admit =
     \<lparr>requestsPerMinute = 0, burstLimit = 10, retryDelay = 1000, maxRetryDelay = 10000\<rparr>"

definition two_recorded :: rate_limiter where
  "two_recorded = record_all [(0, 1), (1000, 1)] (new_rate_limiter two_per_minute)"










section \<open>Properties of the string helpers\<close>

lemma str_includes_iff: "str_includes xs sub \<longleftrightarrow> (\<exists>p s. xs = p @ sub @ s)"
proof (induction xs)
  case Nil
  then show ?case by simp
next
  case (Cons c cs)
  show ?case
  proof
    assume "str_includes (c # cs) sub"
    then consider "prefix sub (c # cs)" | "str_includes cs sub" by auto
    then show "\<exists>p s. c # cs = p @ sub @ s"
    proof cases
      case 1
      then obtain s where "c # cs = sub @ s" by (auto simp: prefix_def)
      then have "c # cs = [] @ sub @ s" by simp
      then show ?thesis by blast
    next
      case 2
      with Cons obtain p s where "cs = p @ sub @ s" by blast
      then have "c # cs = (c # p) @ sub @ s" by simp
      then show ?thesis by blast
    qed
  next
    assume "\<exists>p s. c # cs = p @ sub @ s"
    then obtain p s where ps: "c # cs = p @ sub @ s" by blast
    show "str_includes (c # cs) sub"
    proof (cases p)
      case Nil
      with ps have "prefix sub (c # cs)" by (simp add: prefix_def)
      then show ?thesis by simp
    next
      case (Cons a p')
      with ps have "cs = p' @ sub @ s" by simp
      with Cons.IH have "str_includes cs sub" by blast
      then show ?thesis by simp
    qed
  qed
qed

section \<open>Custom-field personalization\<close>

text \<open>
  C10. \<open>assessPersonalizationOpportunity\<close> decides by substring tests on the lower-cased
  field name, in a fixed order: a name containing \<open>name\<close> is High (email
  personalization) whatever else it contains; otherwise \<open>location\<close> or \<open>state\<close> give
  Medium; otherwise \<open>specialty\<close> or \<open>industry\<close> give High (professional); otherwise Low.
\<close>

theorem personalization_precedence:
  fixes fld :: custom_field
  shows "(str_includes (toLowerCase (field_name fld)) ''name''
            \<longrightarrow> assessPersonalizationOpportunity fld = ''High - Use for email personalization'')
       \<and> (\<not> str_includes (toLowerCase (field_name fld)) ''name''
            \<and> (str_includes (toLowerCase (field_name fld)) ''location''
               \<or> str_includes (toLowerCase (field_name fld)) ''state'')
            \<longrightarrow> assessPersonalizationOpportunity fld = ''Medium - Geographic targeting'')
       \<and> (\<not> str_includes (toLowerCase (field_name fld)) ''name''
            \<and> \<not> str_includes (toLowerCase (field_name fld)) ''location''
            \<and> \<not> str_includes (toLowerCase (field_name fld)) ''state''
            \<and> (str_includes (toLowerCase (field_name fld)) ''specialty''
               \<or> str_includes (toLowerCase (field_name fld)) ''industry'')
            \<longrightarrow> assessPersonalizationOpportunity fld = ''High - Professional/industry segmentation'')
       \<and> (\<not> str_includes (toLowerCase (field_name fld)) ''name''
            \<and> \<not> str_includes (toLowerCase (field_name fld)) ''location''
            \<and> \<not> str_includes (toLowerCase (field_name fld)) ''state''
            \<and> \<not> str_includes (toLowerCase (field_name fld)) ''specialty''
            \<and> \<not> str_includes (toLowerCase (field_name fld)) ''industry''
            \<longrightarrow> assessPersonalizationOpportunity fld = ''Low - General data field'')"
  by (simp add: assessPersonalizationOpportunity_def Let_def)

text \<open>
  The four cases at concrete names: \<open>Industry Name\<close> and \<open>Username\<close> contain \<open>name\<close>,
  \<open>Estate\<close> contains \<open>state\<close>, \<open>Industry\<close> only \<open>industry\<close>, \<open>Company\<close> none of the keywords.
\<close>

theorem personalization_precedence_witness:
  "assessPersonalizationOpportunity (named_field ''Industry Name'') = ''High - Use for email personalization''
   \<and> assessPersonalizationOpportunity (named_field ''Username'') = ''High - Use for email personalization''
   \<and> assessPersonalizationOpportunity (named_field ''Estate'') = ''Medium - Geographic targeting''
   \<and> assessPersonalizationOpportunity (named_field ''Industry'') = ''High - Professional/industry segmentation''
   \<and> assessPersonalizationOpportunity (named_field ''Company'') = ''Low - General data field''"
proof -
  have n1: "str_includes (toLowerCase (field_name (named_field ''Industry Name''))) ''name''"
    by code_simp
  have n2: "str_includes (toLowerCase (field_name (named_field ''Username''))) ''name''"
    by code_simp
  have m: "\<not> str_includes (toLowerCase (field_name (named_field ''Estate''))) ''name''
           \<and> (str_includes (toLowerCase (field_name (named_field ''Estate''))) ''location''
              \<or> str_includes (toLowerCase (field_name (named_field ''Estate''))) ''state'')"
    by code_simp
  have h: "\<not> str_includes (toLowerCase (field_name (named_field ''Industry''))) ''name''
            \<and> \<not> str_includes (toLowerCase (field_name (named_field ''Industry''))) ''location''
            \<and> \<not> str_includes (toLowerCase (field_name (named_field ''Industry''))) ''state''
            \<and> (str_includes (toLowerCase (field_name (named_field ''Industry''))) ''specialty''
               \<or> str_includes (toLowerCase (field_name (named_field ''Industry''))) ''industry'')"
    by code_simp
  have l: "\<not> str_includes (toLowerCase (field_name (named_field ''Company''))) ''name''
            \<and> \<not> str_includes (toLowerCase (field_name (named_field ''Company''))) ''location''
            \<and> \<not> str_includes (toLowerCase (field_name (named_field ''Company''))) ''state''
            \<and> \<not> str_includes (toLowerCase (field_name (named_field ''Company''))) ''specialty''
            \<and> \<not> str_includes (toLowerCase (field_name (named_field ''Company''))) ''industry''"
    by code_simp
  note rules = personalization_precedence
  have a1: "assessPersonalizationOpportunity (named_field ''Industry Name'') = ''High - Use for email personalization''"
    by (rule rules [THEN conjunct1, THEN mp, OF n1])
  have a2: "assessPersonalizationOpportunity (named_field ''Username'') = ''High - Use for email personalization''"
    by (rule rules [THEN conjunct1, THEN mp, OF n2])
  have a3: "assessPersonalizationOpportunity (named_field ''Estate'') = ''Medium - Geographic targeting''"
    by (rule rules [THEN conjunct2, THEN conjunct1, THEN mp, OF m])
  have a4: "assessPersonalizationOpportunity (named_field ''Industry'') = ''High - Professional/industry segmentation''"
    by (rule rules [THEN conjunct2, THEN conjunct2, THEN conjunct1, THEN mp, OF h])
  have a5: "assessPersonalizationOpportunity (named_field ''Company'') = ''Low - General data field''"
    by (rule rules [THEN conjunct2, THEN conjunct2, THEN conjunct2, THEN mp, OF l])
  show ?thesis
    by (intro conjI a1 a2 a3 a4 a5)
qed

section \<open>Optimization score\<close>

lemma optimization_score_formula:
  "calculateOptimizationScore sq =
     min 100 (50 + (if str_includes (sequence_name sq) ''welcome'' then 10 else 0)
                 + (if str_includes (sequence_name sq) ''nurture'' then 10 else 0)
                 + (if \<not> hold sq then 20 else 0)
                 + (if repeat sq then 10 else 0))"
  by (simp add: calculateOptimizationScore_def Let_def)

lemma optimization_score_lowercase:
  "calculateOptimizationScore
     \<lparr>sequence_id = 1, sequence_name = ''welcome series'', hold = False, repeat = False\<rparr> = 80"
  by (simp add: calculateOptimizationScore_def)

text \<open>
  C2. The score is 50, plus 10 for a name containing \<open>welcome\<close>, 10 for \<open>nurture\<close>, 20 when
  not held and 10 when repeating, capped at 100 (\<open>optimization_score_formula\<close>). The
  test is case sensitive: for the non-held, non-repeat sequence named \<open>Welcome Series\<close>
  the code computes 70, not the 80 of the specification.
\<close>

theorem optimization_score_welcome_series:
  "calculateOptimizationScore
     \<lparr>sequence_id = 1, sequence_name = ''Welcome Series'', hold = False, repeat = False\<rparr> = 70"
  by (simp add: calculateOptimizationScore_def)

section \<open>The sections of the report\<close>

lemma build_audit_summary:
  "account_summary (fst (build_audit env)) =
     buildAccountSummary
       \<lparr>emailStats = getResult (getEmailStats env), growthStats = getResult (getGrowthStats env),
        total_subscribers = None, active_subscribers = None,
        bounced_subscribers = None, complained_subscribers = None\<rparr>
       (subscriber_total (getResult (getSubscribers env)))"
  by (simp add: build_audit_def Let_def split_beta)





lemma build_audit_recommendations:
  "strategic_recommendations (fst (build_audit env)) =
     generateRecommendations
       \<lparr>emailStats = getResult (getEmailStats env), growthStats = getResult (getGrowthStats env),
        total_subscribers = None, active_subscribers = None,
        bounced_subscribers = None, complained_subscribers = None\<rparr>
       (case getResult (getTags env) of None \<Rightarrow> \<lparr>tags = Some []\<rparr> | Some r \<Rightarrow> r)
       (case getResult (getSequences env) of None \<Rightarrow> \<lparr>sequences = Some []\<rparr> | Some r \<Rightarrow> r)
       (case getResult (getForms env) of None \<Rightarrow> \<lparr>forms = Some []\<rparr> | Some r \<Rightarrow> r)"
  by (simp add: build_audit_def Let_def split_beta)


section \<open>Health score\<close>

lemma num_or_Some_id: "num_or (Some (v::int)) 0 = v"
  by (simp add: num_or_def)

lemma num_or_total: "0 \<le> (n::int) \<Longrightarrow> num_or (Some n) 1 = max 1 n"
  by (auto simp: num_or_def)

lemma health_score_refines:
  assumes "0 \<le> n_total"
  shows "calculateListHealthScore (count_stats n_total n_active n_bounced n_complained)
         = health_score_spec n_total n_active n_bounced n_complained"
  using assms
  by (simp add: calculateListHealthScore_def health_score_spec_def count_stats_def clamp_def
      num_or_Some_id num_or_total Let_def mult.commute)

lemma summary_health:
  "list_health_score (buildAccountSummary st n) = calculateListHealthScore (count_stats n n 0 0)"
  by (simp add: buildAccountSummary_def count_stats_def Let_def)

lemma summary_health_value:
  "list_health_score (buildAccountSummary st n) = (if n = 0 then 0 else 100)"
  by (simp add: buildAccountSummary_def calculateListHealthScore_def num_or_def Let_def)

lemma subscriber_total_count:
  "n \<noteq> 0 \<Longrightarrow>
     subscriber_total (Some \<lparr>subscribers = subs, pagination = Some \<lparr>total_count = Some n\<rparr>\<rparr>) = n"
  by (simp add: subscriber_total_def num_or_def)

lemma health_score_in_range:
  "0 \<le> calculateListHealthScore st \<and> calculateListHealthScore st \<le> 100"
  by (simp add: calculateListHealthScore_def Let_def)

text \<open>
  C7. For non-negative subscriber counts \<open>calculateListHealthScore\<close> is the clamp to
  \<open>[0, 100]\<close> of \<open>100 * (active / total) - 50 * ((bounced + complained) / total)\<close> with
  the total floored at 1; the account summary applies it with every subscriber active
  and none bounced or complained; and when the subscriber read reports a total count
  of 250, the list health score of the report is 100. Numbers are exact rationals here,
  where JavaScript computes in floating point.
\<close>

theorem health_score_formula:
  assumes "0 \<le> n_total" and "0 \<le> n_active" and "0 \<le> n_bounced" and "0 \<le> n_complained"
  shows "calculateListHealthScore (count_stats n_total n_active n_bounced n_complained)
           = health_score_spec n_total n_active n_bounced n_complained
       \<and> list_health_score (buildAccountSummary st n_total) = health_score_spec n_total n_total 0 0
       \<and> (getSubscribers env
             = Fulfilled \<lparr>subscribers = subs, pagination = Some \<lparr>total_count = Some 250\<rparr>\<rparr>
            \<longrightarrow> list_health_score (account_summary (fst (build_audit env))) = 100)"
proof (intro conjI impI)
  show "calculateListHealthScore (count_stats n_total n_active n_bounced n_complained)
           = health_score_spec n_total n_active n_bounced n_complained"
    using assms(1) by (rule health_score_refines)
  show "list_health_score (buildAccountSummary st n_total) = health_score_spec n_total n_total 0 0"
    using assms(1) by (simp add: summary_health health_score_refines)
next
  assume "getSubscribers env
            = Fulfilled \<lparr>subscribers = subs, pagination = Some \<lparr>total_count = Some 250\<rparr>\<rparr>"
  then have "subscriber_total (getResult (getSubscribers env)) = 250"
    by (simp add: getResult_def subscriber_total_count)
  then show "list_health_score (account_summary (fst (build_audit env))) = 100"
    by (simp add: build_audit_summary summary_health_value)
qed

theorem health_score_formula_witness:
  "calculateListHealthScore (count_stats 250 200 10 5) = health_score_spec 250 200 10 5
   \<and> health_score_spec 250 200 10 5 = 77
   \<and> list_health_score (buildAccountSummary (count_stats 0 0 0 0) 250) = health_score_spec 250 250 0 0
   \<and> health_score_spec 250 250 0 0 = 100
   \<and> list_health_score (account_summary (fst (build_audit test_env))) = 100"
proof -
  have subs: "getSubscribers test_env
     = Fulfilled \<lparr>subscribers = Some [\<lparr>subscriber_id = 1, email_address = ''user1@example.com''\<rparr>,
                                     \<lparr>subscriber_id = 2, email_address = ''user2@example.com''\<rparr>],
                  pagination = Some \<lparr>total_count = Some 250\<rparr>\<rparr>"
    by (simp add: test_env_def)
  have v1: "health_score_spec 250 200 10 5 = 77"
    by (simp add: health_score_spec_def clamp_def)
  have v2: "health_score_spec 250 250 0 0 = 100"
    by (simp add: health_score_spec_def clamp_def)
  have nonneg: "(0::int) \<le> 250" "(0::int) \<le> 200" "(0::int) \<le> 10" "(0::int) \<le> 5"
    by simp_all
  from health_score_formula [OF nonneg, of "count_stats 0 0 0 0" test_env] subs v1 v2
  show ?thesis by simp
qed

section \<open>Recommendations\<close>

lemma health_score_without_counts:
  "calculateListHealthScore
     \<lparr>emailStats = e, growthStats = g, total_subscribers = None, active_subscribers = None,
      bounced_subscribers = None, complained_subscribers = None\<rparr> = 0"
  by (simp add: calculateListHealthScore_def num_or_def)

lemma reengagement_always_recommended:
  "reengagement_recommendation \<in> set (strategic_recommendations (fst (build_audit env)))"
  by (simp add: build_audit_recommendations generateRecommendations_def
      health_score_without_counts Let_def)

lemma recommendations_distinct:
  "distinct [reengagement_recommendation, segmentation_recommendation,
             automation_recommendation, lead_capture_recommendation,
             brand_recommendation, segment_tracking_recommendation]"
  by (simp add: reengagement_recommendation_def segmentation_recommendation_def
      automation_recommendation_def lead_capture_recommendation_def
      brand_recommendation_def segment_tracking_recommendation_def)

lemma recommendation_rules:
  "(reengagement_recommendation \<in> set (generateRecommendations st tg sq fm)
      \<longleftrightarrow> calculateListHealthScore st < 70)
   \<and> (segmentation_recommendation \<in> set (generateRecommendations st tg sq fm)
      \<longleftrightarrow> length_below (tags tg) 5)
   \<and> (automation_recommendation \<in> set (generateRecommendations st tg sq fm)
      \<longleftrightarrow> length (case sequences sq of None \<Rightarrow> [] | Some l \<Rightarrow> filter (\<lambda>s. \<not> hold s) l) < 3)
   \<and> (lead_capture_recommendation \<in> set (generateRecommendations st tg sq fm)
      \<longleftrightarrow> length_below (forms fm) 2)
   \<and> brand_recommendation \<in> set (generateRecommendations st tg sq fm)
   \<and> segment_tracking_recommendation \<in> set (generateRecommendations st tg sq fm)"
  using recommendations_distinct
  by (auto simp: generateRecommendations_def Let_def)

lemma segmentation_recommended_for_two_tags:
  "segmentation_recommendation \<in> set (strategic_recommendations (fst (build_audit test_env)))"
  by (simp add: build_audit_recommendations recommendation_rules test_env_def getResult_def
      length_below_def)

text \<open>
  C3. \<open>generateRecommendations\<close> applies the four thresholds to the health score it
  computes itself and to the tags, active sequences and forms it is given, and always
  adds the two generic entries (\<open>recommendation_rules\<close>). But \<open>execute\<close> hands it the
  object \<open>{emailStats, growthStats}\<close>, which has none of the subscriber counts, so the
  score it computes is 0 whatever the account: with the mocked responses of the unit
  tests the report shows a list health score of 100 and still carries the
  re-engagement recommendation.
\<close>

theorem reengagement_recommended_at_full_health:
  "list_health_score (account_summary (fst (build_audit test_env))) = 100
   \<and> reengagement_recommendation \<in> set (strategic_recommendations (fst (build_audit test_env)))"
proof
  have "subscriber_total (getResult (getSubscribers test_env)) = 250"
    by (simp add: test_env_def getResult_def subscriber_total_count)
  then show "list_health_score (account_summary (fst (build_audit test_env))) = 100"
    by (simp add: build_audit_summary summary_health_value)
  show "reengagement_recommendation \<in> set (strategic_recommendations (fst (build_audit test_env)))"
    by (rule reengagement_always_recommended)
qed

section \<open>Cache keys\<close>

lemma join_nonempty: "xs \<noteq> [] \<Longrightarrow> \<forall>x\<in>set xs. x \<noteq> [] \<Longrightarrow> join sep xs \<noteq> []"
  by (induction sep xs rule: join.induct) auto

lemma render_entry_nonempty: "render_entry stringify ps key \<noteq> []"
  by (simp add: render_entry_def)

lemma sort_permuted: "mset xs = mset ys \<Longrightarrow> sort xs = sort (ys :: 'a::linorder list)"
  by (metis properties_for_sort sorted_sort mset_sort)

lemma map_of_permuted:
  assumes "distinct (map fst ps)" and "mset qs = mset ps"
  shows "map_of qs = map_of ps"
proof -
  have "mset (map fst qs) = mset (map fst ps)"
    using assms(2) by simp
  then have "distinct (map fst qs)"
    using assms(1) by (metis mset_eq_imp_distinct_iff)
  moreover have "set qs = set ps"
    using assms(2) by (metis mset_eq_setD)
  ultimately show ?thesis
    using assms(1) by (simp add: map_of_inject_set)
qed

lemma generateKey_nonempty:
  assumes "ps \<noteq> []"
  shows "generateKey stringify pfx ps
           = pfx @ '':'' @ join ''|'' (map (render_entry stringify ps) (sort (map fst ps)))"
proof -
  from assms have "length (sort (map fst ps)) \<noteq> 0"
    by simp
  then have "map (render_entry stringify ps) (sort (map fst ps)) \<noteq> []"
    by (simp del: length_sort)
  moreover have "\<forall>x\<in>set (map (render_entry stringify ps) (sort (map fst ps))). x \<noteq> []"
    by (simp add: render_entry_nonempty)
  ultimately have "join ''|'' (map (render_entry stringify ps) (sort (map fst ps))) \<noteq> []"
    by (rule join_nonempty)
  then show ?thesis
    by (simp add: generateKey_def Let_def)
qed

text \<open>
  C6. For a parameter object \<open>ps\<close> (no key twice) and any reordering \<open>qs\<close> of its
  entries, \<open>generateKey\<close> returns the same key; for the empty object the key is the
  prefix alone; otherwise it is the prefix, a colon, and the entries \<open>name:value\<close> in
  sorted order of the names, joined by \<open>|\<close>. This holds for every serializer
  \<open>stringify\<close> of the values.
\<close>

theorem generateKey_order_invariant:
  assumes "well_formed ps" and "mset qs = mset ps"
  shows "generateKey stringify pfx qs = generateKey stringify pfx ps
       \<and> generateKey stringify pfx [] = pfx
       \<and> (ps \<noteq> [] \<longrightarrow> generateKey stringify pfx ps
             = pfx @ '':'' @ join ''|'' (map (render_entry stringify ps) (sort (map fst ps))))
       \<and> sorted (sort (map fst ps)) \<and> mset (sort (map fst ps)) = mset (map fst ps)"
proof (intro conjI impI)
  have keys: "sort (map fst qs) = sort (map fst ps)"
    using assms(2) by (intro sort_permuted) simp
  have "map_of qs = map_of ps"
    using assms by (intro map_of_permuted) (simp_all add: well_formed_def)
  then have "render_entry stringify qs = render_entry stringify ps"
    by (simp add: render_entry_def fun_eq_iff)
  with keys show "generateKey stringify pfx qs = generateKey stringify pfx ps"
    by (simp add: generateKey_def)
  show "generateKey stringify pfx [] = pfx"
    by (simp add: generateKey_def)
  show "sorted (sort (map fst ps))" by simp
  show "mset (sort (map fst ps)) = mset (map fst ps)" by simp
next
  assume "ps \<noteq> []"
  then show "generateKey stringify pfx ps
             = pfx @ '':'' @ join ''|'' (map (render_entry stringify ps) (sort (map fst ps)))"
    by (rule generateKey_nonempty)
qed

text \<open>The example of the specification: \<open>{a: 1, b: 2}\<close> and \<open>{b: 2, a: 1}\<close> under the prefix \<open>p\<close>.\<close>

theorem generateKey_order_invariant_witness:
  "well_formed [(''a'', PNum 1), (''b'', PNum 2)]
   \<and> mset [(''b'', PNum 2), (''a'', PNum 1)] = mset [(''a'', PNum 1), (''b'', PNum 2)]
   \<and> generateKey json_text ''p'' [(''b'', PNum 2), (''a'', PNum 1)]
       = generateKey json_text ''p'' [(''a'', PNum 1), (''b'', PNum 2)]
   \<and> generateKey json_text ''p'' [(''a'', PNum 1), (''b'', PNum 2)] = ''p:a:1|b:2''
   \<and> generateKey json_text ''p'' [] = ''p''"
proof -
  have wf: "well_formed [(''a'', PNum 1), (''b'', PNum 2)]"
    by (simp add: well_formed_def)
  have perm: "mset [(''b'', PNum 2), (''a'', PNum 1)] = mset [(''a'', PNum 1), (''b'', PNum 2)]"
    by (simp add: add_mset_commute)
  have val: "generateKey json_text ''p'' [(''a'', PNum 1), (''b'', PNum 2)] = ''p:a:1|b:2''"
    by code_simp
  from generateKey_order_invariant [OF wf perm, of json_text "''p''"] wf perm val
  show ?thesis by blast
qed

section \<open>Admission by the rate limiter\<close>

lemma foldl_add_sum:
  "foldl (\<lambda>sum req. sum + f req) (a::int) xs = a + sum_list (map f xs)"
  by (induction xs arbitrary: a) simp_all

lemma requests_sum_sum_list:
  "requests_sum reqs = (\<Sum>req \<leftarrow> reqs. int (request_count req))"
  by (simp add: requests_sum_def foldl_add_sum)

lemma requests_sum_nonneg: "0 \<le> requests_sum reqs"
  unfolding requests_sum_sum_list by (rule sum_list_nonneg) auto

lemma purge_filter: "purge now reqs = filter (\<lambda>req. now - 60000 < timestamp req) reqs"
  by (simp add: purge_def)

lemma canMakeRequest_state:
  "snd (canMakeRequest now rl) = rl\<lparr>requests := purge now (requests rl)\<rparr>"
  by (simp add: canMakeRequest_def Let_def)

lemma canMakeRequest_answer:
  "fst (canMakeRequest now rl)
     \<longleftrightarrow> requests_sum (purge now (requests rl)) < requestsPerMinute (config rl)"
  by (simp add: canMakeRequest_def Let_def)

lemma record_all_requests:
  "requests (record_all h rl) = requests rl @ map as_record h"
  by (induction h rl rule: record_all.induct) (simp_all add: recordRequest_def as_record_def)

lemma record_all_config: "config (record_all h rl) = config rl"
  by (induction h rl rule: record_all.induct) (simp_all add: recordRequest_def)

lemma purged_history_sum:
  "requests_sum (purge now (map as_record h)) = recent_total now h"
  by (induction h) (auto simp: requests_sum_sum_list purge_filter recent_total_def as_record_def)

lemma canMakeRequest_after_history:
  "fst (canMakeRequest now (record_all h (new_rate_limiter cfg)))
     \<longleftrightarrow> recent_total now h < requestsPerMinute cfg"
  by (simp add: canMakeRequest_answer record_all_requests record_all_config
      new_rate_limiter_def purged_history_sum)

lemma purge_all_old:
  "\<forall>req\<in>set reqs. timestamp req \<le> now - 60000 \<Longrightarrow> purge now reqs = []"
  by (induction reqs) (auto simp: purge_filter)

lemma two_recorded_requests:
  "requests two_recorded =
     [\<lparr>timestamp = 0, request_count = 1\<rparr>, \<lparr>timestamp = 1000, request_count = 1\<rparr>]"
  by (simp add: two_recorded_def recordRequest_def new_rate_limiter_def)

lemma two_recorded_config: "config two_recorded = two_per_minute"
  by (simp add: two_recorded_def recordRequest_def new_rate_limiter_def)

text \<open>
  C5. \<open>canMakeRequest\<close> keeps exactly the window entries stamped after \<open>now - 60000\<close>
  (so every entry older than 60 seconds is removed; an entry exactly 60 seconds old
  goes too), leaves the configuration alone, and answers whether the counts that
  remain sum to less than \<open>requestsPerMinute\<close>. After any history of \<open>recordRequest\<close>
  calls on a fresh limiter the answer is whether the counts recorded in the trailing
  window sum to less than the limit: it is false once they reach it, true again when
  enough entries have aged out, and always false when the limit is 0.
\<close>

theorem canMakeRequest_sliding_window:
  "requests (snd (canMakeRequest now rl))
     = filter (\<lambda>req. now - 60000 < timestamp req) (requests rl)
   \<and> config (snd (canMakeRequest now rl)) = config rl
   \<and> (\<forall>req\<in>set (requests rl). timestamp req < now - 60000
         \<longrightarrow> req \<notin> set (requests (snd (canMakeRequest now rl))))
   \<and> (fst (canMakeRequest now rl)
        \<longleftrightarrow> (\<Sum>req \<leftarrow> requests (snd (canMakeRequest now rl)). int (request_count req))
              < requestsPerMinute (config rl))
   \<and> (fst (canMakeRequest now (record_all h (new_rate_limiter cfg)))
        \<longleftrightarrow> recent_total now h < requestsPerMinute cfg)
   \<and> (requestsPerMinute (config rl) = 0 \<longrightarrow> \<not> fst (canMakeRequest now rl))
   \<and> ((\<forall>req\<in>set (requests rl). timestamp req \<le> now - 60000) \<and> 0 < requestsPerMinute (config rl)
        \<longrightarrow> fst (canMakeRequest now rl))"
proof (intro conjI)
  show "requests (snd (canMakeRequest now rl))
          = filter (\<lambda>req. now - 60000 < timestamp req) (requests rl)"
    by (simp add: canMakeRequest_state purge_filter)
  show "config (snd (canMakeRequest now rl)) = config rl"
    by (simp add: canMakeRequest_state)
  show "\<forall>req\<in>set (requests rl). timestamp req < now - 60000
          \<longrightarrow> req \<notin> set (requests (snd (canMakeRequest now rl)))"
    by (simp add: canMakeRequest_state purge_filter)
  show "fst (canMakeRequest now rl)
        \<longleftrightarrow> (\<Sum>req \<leftarrow> requests (snd (canMakeRequest now rl)). int (request_count req))
              < requestsPerMinute (config rl)"
    by (simp add: canMakeRequest_answer canMakeRequest_state requests_sum_sum_list)
  show "fst (canMakeRequest now (record_all h (new_rate_limiter cfg)))
        \<longleftrightarrow> recent_total now h < requestsPerMinute cfg"
    by (rule canMakeRequest_after_history)
  show "requestsPerMinute (config rl) = 0 \<longrightarrow> \<not> fst (canMakeRequest now rl)"
    using requests_sum_nonneg [of "purge now (requests rl)"]
    by (simp add: canMakeRequest_answer)
  show "(\<forall>req\<in>set (requests rl). timestamp req \<le> now - 60000) \<and> 0 < requestsPerMinute (config rl)
        \<longrightarrow> fst (canMakeRequest now rl)"
    by (simp add: canMakeRequest_answer purge_all_old requests_sum_def)
qed

text \<open>
  With a limit of two per minute and requests recorded at 0 and 1000 ms: refused at
  2000 ms, admitted at 60000 ms (the first entry has aged out) and at 70000 ms (the
  window is empty); with a limit of 0, refused.
\<close>

theorem canMakeRequest_sliding_window_witness:
  "\<not> fst (canMakeRequest 2000 (record_all [(0, 1), (1000, 1)] (new_rate_limiter two_per_minute)))
   \<and> fst (canMakeRequest 60000 (record_all [(0, 1), (1000, 1)] (new_rate_limiter two_per_minute)))
   \<and> fst (canMakeRequest 70000 two_recorded)
   \<and> requests (snd (canMakeRequest 70000 two_recorded)) = []
   \<and> \<not> fst (canMakeRequest 2000 (new_rate_limiter never_admit))"
proof -
  note window = canMakeRequest_sliding_window
  have a: "\<not> fst (canMakeRequest 2000 (record_all [(0, 1), (1000, 1)] (new_rate_limiter two_per_minute)))"
    using window [of 2000 two_recorded "[(0, 1), (1000, 1)]" two_per_minute]
    by (simp add: recent_total_def two_per_minute_def)
  have b: "fst (canMakeRequest 60000 (record_all [(0, 1), (1000, 1)] (new_rate_limiter two_per_minute)))"
    using window [of 60000 two_recorded "[(0, 1), (1000, 1)]" two_per_minute]
    by (simp add: recent_total_def two_per_minute_def)
  have old: "(\<forall>req\<in>set (requests two_recorded). timestamp req \<le> 70000 - 60000)
             \<and> 0 < requestsPerMinute (config two_recorded)"
    by (simp add: two_recorded_requests two_recorded_config two_per_minute_def)
  have c: "fst (canMakeRequest 70000 two_recorded)"
    using window [of 70000 two_recorded "[]" two_per_minute] old by blast
  have d: "requests (snd (canMakeRequest 70000 two_recorded)) = []"
    using window [of 70000 two_recorded "[]" two_per_minute]
    by (simp add: two_recorded_requests)
  have zero: "requestsPerMinute (config (new_rate_limiter never_admit)) = 0"
    by (simp add: new_rate_limiter_def never_admit_def)
  have e: "\<not> fst (canMakeRequest 2000 (new_rate_limiter never_admit))"
    using window [of 2000 "new_rate_limiter never_admit" "[]" never_admit] zero by blast
  show ?thesis
    by (intro conjI a b c d e)
qed

section \<open>The window stays ordered\<close>

lemma invariant_new: "window_invariant now (new_rate_limiter cfg)"
  by (simp add: window_invariant_def window_ordered_def window_before_def new_rate_limiter_def)

lemma invariant_record:
  assumes "window_invariant t rl" and "t \<le> now"
  shows "window_invariant now (recordRequest now n rl)"
  using assms
  by (auto simp: window_invariant_def window_ordered_def window_before_def recordRequest_def
      sorted_append list_all_iff)

lemma invariant_purge:
  assumes "window_invariant t rl" and "t \<le> now"
  shows "window_invariant now (rl\<lparr>requests := purge now' (requests rl)\<rparr>)"
  using assms
  by (auto simp: window_invariant_def window_ordered_def window_before_def purge_filter
      sorted_filter list_all_iff)

lemma invariant_canMakeRequest:
  assumes "window_invariant t rl" and "t \<le> now"
  shows "window_invariant now (snd (canMakeRequest now rl))"
  using assms by (simp add: canMakeRequest_state invariant_purge)

lemma getStatus_state: "snd (getStatus now rl) = rl\<lparr>requests := purge now (requests rl)\<rparr>"
  by (simp add: getStatus_def Let_def)

lemma invariant_getStatus:
  assumes "window_invariant t rl" and "t \<le> now"
  shows "window_invariant now (snd (getStatus now rl))"
  using assms by (simp add: getStatus_state invariant_purge)

lemma invariant_waitForAvailability:
  assumes "window_invariant t rl" and "t \<le> now"
    and "waitForAvailability lags now rl = Some (t', rl')"
  shows "now \<le> t' \<and> window_invariant t' rl'"
  using assms
proof (induction lags arbitrary: t now rl)
  case Nil
  obtain ok rl1 where c: "canMakeRequest now rl = (ok, rl1)" by (cases "canMakeRequest now rl")
  then have rl1: "rl1 = snd (canMakeRequest now rl)" by simp
  from Nil.prems(3) c have ok and res: "t' = now" "rl' = recordRequest now 1 rl1"
    by (auto split: if_splits bool.splits)
  have "window_invariant now rl1"
    unfolding rl1 using Nil.prems(1,2) by (rule invariant_canMakeRequest)
  then have "window_invariant now (recordRequest now 1 rl1)"
    by (rule invariant_record) simp
  with res show ?case by simp
next
  case (Cons lag lags)
  obtain ok rl1 where c: "canMakeRequest now rl = (ok, rl1)" by (cases "canMakeRequest now rl")
  then have rl1: "rl1 = snd (canMakeRequest now rl)" by simp
  have inv1: "window_invariant now rl1"
    unfolding rl1 using Cons.prems(1,2) by (rule invariant_canMakeRequest)
  show ?case
  proof (cases ok)
    case True
    with Cons.prems(3) c have res: "t' = now" "rl' = recordRequest now 1 rl1"
      by auto
    have "window_invariant now (recordRequest now 1 rl1)"
      using inv1 by (rule invariant_record) simp
    with res show ?thesis by simp
  next
    case False
    define later where
      "later = now + max 0 (min (waitTime now rl1) (maxRetryDelay (config rl1))) + int lag"
    have le: "now \<le> later" by (simp add: later_def)
    from False Cons.prems(3) c
    have "waitForAvailability lags later rl1 = Some (t', rl')"
      by (simp add: later_def Let_def)
    with Cons.IH [OF inv1 le] have "later \<le> t' \<and> window_invariant t' rl'" by blast
    with le show ?thesis by simp
  qed
qed

lemma ordered_head_oldest:
  assumes "window_ordered rl" and "requests rl = oldest # rest"
  shows "\<forall>req\<in>set (requests rl). timestamp oldest \<le> timestamp req"
  using assms by (auto simp: window_ordered_def)

text \<open>
  C9. Let the window be ordered by non-decreasing timestamp with no timestamp after
  the clock value \<open>t\<close>, and let the clock not run backwards (\<open>t \<le> now\<close>). Then the
  fresh limiter, \<open>recordRequest\<close>, the purges of \<open>canMakeRequest\<close> and \<open>getStatus\<close>, and
  a finished \<open>waitForAvailability\<close> all keep both properties. Hence the first element
  of the purged window is its oldest entry, and it is the one the wait formula
  \<open>60000 - (now - timestamp)\<close> and \<open>resetTime = timestamp + 60000\<close> use.
\<close>

theorem window_stays_ordered:
  assumes "window_ordered rl" and "window_before t rl" and "t \<le> now"
  shows "window_ordered (new_rate_limiter cfg)
       \<and> window_ordered (recordRequest now n rl) \<and> window_before now (recordRequest now n rl)
       \<and> window_ordered (snd (canMakeRequest now rl)) \<and> window_before now (snd (canMakeRequest now rl))
       \<and> window_ordered (snd (getStatus now rl)) \<and> window_before now (snd (getStatus now rl))
       \<and> (\<forall>t' rl'. waitForAvailability lags now rl = Some (t', rl')
             \<longrightarrow> now \<le> t' \<and> window_ordered rl' \<and> window_before t' rl')
       \<and> (\<forall>oldest rest. requests (snd (canMakeRequest now rl)) = oldest # rest
             \<longrightarrow> (\<forall>req\<in>set (requests (snd (canMakeRequest now rl))). timestamp oldest \<le> timestamp req)
               \<and> waitTime now (snd (canMakeRequest now rl)) = 60000 - (now - timestamp oldest)
               \<and> resetTime (fst (getStatus now rl)) = timestamp oldest + 60000)"
proof -
  have inv: "window_invariant t rl"
    using assms(1,2) by (simp add: window_invariant_def)
  have a: "window_invariant now (new_rate_limiter cfg)" by (rule invariant_new)
  have b: "window_invariant now (recordRequest now n rl)"
    using inv assms(3) by (rule invariant_record)
  have c: "window_invariant now (snd (canMakeRequest now rl))"
    using inv assms(3) by (rule invariant_canMakeRequest)
  have d: "window_invariant now (snd (getStatus now rl))"
    using inv assms(3) by (rule invariant_getStatus)
  have e: "\<forall>t' rl'. waitForAvailability lags now rl = Some (t', rl')
             \<longrightarrow> now \<le> t' \<and> window_ordered rl' \<and> window_before t' rl'"
    using invariant_waitForAvailability [OF inv assms(3)]
    by (simp add: window_invariant_def)
  have f: "\<forall>oldest rest. requests (snd (canMakeRequest now rl)) = oldest # rest
             \<longrightarrow> (\<forall>req\<in>set (requests (snd (canMakeRequest now rl))). timestamp oldest \<le> timestamp req)
               \<and> waitTime now (snd (canMakeRequest now rl)) = 60000 - (now - timestamp oldest)
               \<and> resetTime (fst (getStatus now rl)) = timestamp oldest + 60000"
  proof (intro allI impI conjI)
    fix oldest rest
    assume hd: "requests (snd (canMakeRequest now rl)) = oldest # rest"
    from c have "window_ordered (snd (canMakeRequest now rl))"
      by (simp add: window_invariant_def)
    then show "\<forall>req\<in>set (requests (snd (canMakeRequest now rl))). timestamp oldest \<le> timestamp req"
      using hd by (rule ordered_head_oldest)
    show "waitTime now (snd (canMakeRequest now rl)) = 60000 - (now - timestamp oldest)"
      using hd by (simp add: waitTime_def)
    from hd have "purge now (requests rl) = oldest # rest"
      by (simp add: canMakeRequest_state)
    then show "resetTime (fst (getStatus now rl)) = timestamp oldest + 60000"
      by (simp add: getStatus_def Let_def)
  qed
  from a b c d e f show ?thesis
    by (simp add: window_invariant_def)
qed

text \<open>
  Two requests recorded at 0 and 1000 ms under a limit of two per minute, seen at
  2000 ms: the wait is 58000 ms, the reset time 60000 ms, and \<open>waitForAvailability\<close>
  is admitted at 60000 ms, after six sleeps, with the window still ordered.
\<close>

theorem window_stays_ordered_witness:
  "window_ordered two_recorded \<and> window_before 1000 two_recorded
   \<and> window_ordered (recordRequest 2000 1 two_recorded)
   \<and> waitForAvailability [0, 0, 0, 0, 0, 0] 2000 two_recorded
       = Some (60000, \<lparr>requests = [\<lparr>timestamp = 1000, request_count = 1\<rparr>,
                                   \<lparr>timestamp = 60000, request_count = 1\<rparr>],
                       config = two_per_minute\<rparr>)
   \<and> window_ordered \<lparr>requests = [\<lparr>timestamp = 1000, request_count = 1\<rparr>,
                                \<lparr>timestamp = 60000, request_count = 1\<rparr>],
                    config = two_per_minute\<rparr>
   \<and> waitTime 2000 (snd (canMakeRequest 2000 two_recorded)) = 58000
   \<and> resetTime (fst (getStatus 2000 two_recorded)) = 60000"
proof -
  have ord: "window_ordered two_recorded"
    by (simp add: window_ordered_def two_recorded_requests)
  have before: "window_before 1000 two_recorded"
    by (simp add: window_before_def two_recorded_requests)
  have le: "(1000::int) \<le> 2000" by simp
  have wait: "waitForAvailability [0, 0, 0, 0, 0, 0] 2000 two_recorded
       = Some (60000, \<lparr>requests = [\<lparr>timestamp = 1000, request_count = 1\<rparr>,
                                   \<lparr>timestamp = 60000, request_count = 1\<rparr>],
                       config = two_per_minute\<rparr>)"
    by code_simp
  have head: "requests (snd (canMakeRequest 2000 two_recorded))
                = \<lparr>timestamp = 0, request_count = 1\<rparr> # [\<lparr>timestamp = 1000, request_count = 1\<rparr>]"
    by (simp add: canMakeRequest_state purge_filter two_recorded_requests)
  note stays = window_stays_ordered [OF ord before le, of two_per_minute 1 "[0, 0, 0, 0, 0, 0]"]
  have a: "window_ordered (recordRequest 2000 1 two_recorded)"
    using stays by (elim conjE)
  have "\<forall>t' rl'. waitForAvailability [0, 0, 0, 0, 0, 0] 2000 two_recorded = Some (t', rl')
             \<longrightarrow> 2000 \<le> t' \<and> window_ordered rl' \<and> window_before t' rl'"
    using stays by (elim conjE)
  with wait have b: "window_ordered \<lparr>requests = [\<lparr>timestamp = 1000, request_count = 1\<rparr>,
                                \<lparr>timestamp = 60000, request_count = 1\<rparr>],
                    config = two_per_minute\<rparr>"
    by blast
  have "\<forall>oldest rest. requests (snd (canMakeRequest 2000 two_recorded)) = oldest # rest
             \<longrightarrow> (\<forall>req\<in>set (requests (snd (canMakeRequest 2000 two_recorded))).
                    timestamp oldest \<le> timestamp req)
               \<and> waitTime 2000 (snd (canMakeRequest 2000 two_recorded))
                   = 60000 - (2000 - timestamp oldest)
               \<and> resetTime (fst (getStatus 2000 two_recorded)) = timestamp oldest + 60000"
    using stays by (elim conjE)
  with head have "waitTime 2000 (snd (canMakeRequest 2000 two_recorded))
                   = 60000 - (2000 - timestamp \<lparr>timestamp = 0, request_count = 1\<rparr>)
               \<and> resetTime (fst (getStatus 2000 two_recorded))
                   = timestamp \<lparr>timestamp = 0, request_count = 1\<rparr> + 60000"
    by blast
  then have c: "waitTime 2000 (snd (canMakeRequest 2000 two_recorded)) = 58000
                \<and> resetTime (fst (getStatus 2000 two_recorded)) = 60000"
    by simp
  from ord before a wait b c show ?thesis
    by (intro conjI) simp_all
qed

section \<open>The cache\<close>























section \<open>execute and the cache\<close>


















section \<open>Rejected reads\<close>





















end
